theory Spec2Isabelle
  imports Complex_Main
begin

section \<open>Python values, exceptions and tensors\<close>

text \<open>
  The exceptions that \<^verbatim>\<open>transformer/model_dual.py\<close> raises or lets through. A raising
  computation returns \<open>Inl e\<close>, a returning one \<open>Inr v\<close>.
\<close>

datatype pyerror =
    ValueError | AssertionError | NotImplementedError | AttributeError
  | KeyError | IndexError | RuntimeError | FileNotFoundError

text \<open>Sequencing: the rest of a block runs only when the statement before it returned.\<close>

definition and_then :: "pyerror + 'a \<Rightarrow> ('a \<Rightarrow> pyerror + 'b) \<Rightarrow> pyerror + 'b" where
  "and_then x f = (case x of Inl e \<Rightarrow> Inl e | Inr v \<Rightarrow> f v)"

text \<open>
  \<^verbatim>\<open>config.pre_train\<close> is read with \<^verbatim>\<open>len\<close> and by index and re-bound to a list that
  holds the old value, so its values are dynamically typed: a string or a list.
\<close>

datatype pyval = PStr string | PList "pyval list"

fun py_len :: "pyval \<Rightarrow> nat" where
  "py_len (PStr s) = length s"
| "py_len (PList xs) = length xs"

text \<open>\<^verbatim>\<open>x[0]\<close> and \<^verbatim>\<open>x[-1]\<close>; indexing a string gives a string of one character.\<close>

fun py_first :: "pyval \<Rightarrow> pyerror + pyval" where
  "py_first (PStr []) = Inl IndexError"
| "py_first (PStr (c # cs)) = Inr (PStr [c])"
| "py_first (PList []) = Inl IndexError"
| "py_first (PList (x # xs)) = Inr x"

fun py_last :: "pyval \<Rightarrow> pyerror + pyval" where
  "py_last (PStr []) = Inl IndexError"
| "py_last (PStr (c # cs)) = Inr (PStr [last (c # cs)])"
| "py_last (PList []) = Inl IndexError"
| "py_last (PList (x # xs)) = Inr (last (x # xs))"

text \<open>
  A rank-3 tensor \<open>[batch, time, feature]\<close> is a list of batch items, each a list of
  timesteps, each a list of features. Floating-point numbers are read as reals. A
  parameter tensor of a module is kept flat, with its shape.
\<close>

type_synonym tensor = "real list list list"

type_synonym mask = "bool list list list"

datatype param = Param (shape: "nat list") (data: "real list")

text \<open>
  A \<^verbatim>\<open>torch.nn.Module\<close>: its own parameters and buffers by name, and its children by
  name (\<^verbatim>\<open>_modules\<close>, where a child may be \<^verbatim>\<open>None\<close>). A state dict is an ordered
  dictionary from names to tensors; a checkpoint file holds state dicts by name.
\<close>

datatype module =
  Module (parameters: "(string \<times> param) list") (children: "(string \<times> module option) list")

type_synonym state_dict = "(string \<times> param) list"

type_synonym checkpoint = "(string \<times> state_dict) list"

section \<open>Configuration\<close>

text \<open>
  \<^verbatim>\<open>DualTransformerConfig\<close>: the fields it adds, and \<^verbatim>\<open>hidden_size\<close> of the
  \<^verbatim>\<open>TransformerConfig\<close> it extends.
\<close>

record config =
  hidden_size :: int
  dual_transformer :: bool
  decoder :: bool
  intermediate_pe :: bool
  combine :: string
  phone_type :: string
  phone_size :: int
  phone_dim :: int
  speaker_type :: string
  speaker_size :: int
  speaker_dim :: int
  average_pooling :: bool
  pre_train :: pyval

section \<open>Collaborators outside the file\<close>

text \<open>
  The recognizer layers of \<^verbatim>\<open>transformer/model_quantize.py\<close>, by constructor and
  arguments.
\<close>

datatype recognizer =
    VectorQuantizeLayer_L2 int int int
  | VectorQuantizeLayer_GB int int int
  | GlobalStyleTokenLayer int int int
  | LinearLayer int int

text \<open>
  Modelled from the spec: the attribute \<^verbatim>\<open>out_dim\<close> of a recognizer layer, whose class
  is not in the source at hand. The spec gives \<^verbatim>\<open>Recognizer(hidden_size, size, dim)\<close> as
  a projection to a code of width \<^verbatim>\<open>dim\<close>, exposing \<^verbatim>\<open>out_dim\<close>.
\<close>

fun recognizer_out_dim :: "recognizer \<Rightarrow> int" where
  "recognizer_out_dim (VectorQuantizeLayer_L2 h s d) = d"
| "recognizer_out_dim (VectorQuantizeLayer_GB h s d) = d"
| "recognizer_out_dim (GlobalStyleTokenLayer h s d) = d"
| "recognizer_out_dim (LinearLayer h d) = d"

text \<open>
  What the file calls and does not define is a parameter of the model:
  the constructor of \<^verbatim>\<open>TransformerModel\<close> (config, input dimension and
  \<^verbatim>\<open>with_input_module\<close> when given) as the module tree it builds,
  \<^verbatim>\<open>init_Transformer_weights\<close> applied over a module tree, the forward functions of
  \<^verbatim>\<open>TransformerModel\<close> (input, position encoding, attention mask, head mask; it returns
  the attention traces and the sequence output), of a recognizer and of
  \<^verbatim>\<open>TransformerSpecPredictionHead\<close>.
\<close>

record externals =
  TransformerModel_new :: "config \<Rightarrow> int \<Rightarrow> bool option \<Rightarrow> module"
  init_Transformer_weights :: "module \<Rightarrow> module"
  TransformerModel_forward ::
    "module \<Rightarrow> tensor \<Rightarrow> tensor option \<Rightarrow> tensor option \<Rightarrow> tensor option
      \<Rightarrow> pyerror + (tensor list \<times> tensor)"
  Recognizer_forward :: "recognizer \<Rightarrow> tensor \<Rightarrow> pyerror + tensor"
  SpecHead_forward :: "tensor \<Rightarrow> pyerror + (tensor \<times> tensor)"

section \<open>The two encoders: construction\<close>

record encoder =
  Transformer :: module
  Recognizer :: "recognizer option"
  with_recognizer :: bool
  out_dim :: int

record speaker_encoder = encoder +
  enc_average_pooling :: bool

text \<open>
  The tail of both constructors: \<^verbatim>\<open>self.apply(self.init_Transformer_weights)\<close> and
  \<^verbatim>\<open>self.out_dim = self.Recognizer.out_dim if with_recognizer else config.hidden_size\<close>.
  A recognizer is set exactly in the branches that leave \<^verbatim>\<open>with_recognizer\<close> true.
\<close>

definition phonetic_finish :: "externals \<Rightarrow> config \<Rightarrow> module \<Rightarrow> recognizer option \<Rightarrow> encoder" where
  "phonetic_finish ext cfg tm r =
     \<lparr>Transformer = init_Transformer_weights ext tm,
      Recognizer = r,
      with_recognizer = (case r of None \<Rightarrow> False | Some l \<Rightarrow> True),
      out_dim = (case r of None \<Rightarrow> hidden_size cfg | Some l \<Rightarrow> recognizer_out_dim l)\<rparr>"

definition speaker_finish ::
  "externals \<Rightarrow> config \<Rightarrow> module \<Rightarrow> recognizer option \<Rightarrow> speaker_encoder" where
  "speaker_finish ext cfg tm r =
     \<lparr>Transformer = init_Transformer_weights ext tm,
      Recognizer = r,
      with_recognizer = (case r of None \<Rightarrow> False | Some l \<Rightarrow> True),
      out_dim = (case r of None \<Rightarrow> hidden_size cfg | Some l \<Rightarrow> recognizer_out_dim l),
      enc_average_pooling = average_pooling cfg\<rparr>"

definition TransformerPhoneticEncoder_init ::
  "externals \<Rightarrow> config \<Rightarrow> int \<Rightarrow> bool \<Rightarrow> pyerror + encoder" where
  "TransformerPhoneticEncoder_init ext cfg input_dim with_rec =
     (let tm = TransformerModel_new ext cfg input_dim None in
      if phone_type cfg = ''l2'' \<and> with_rec then
        Inr (phonetic_finish ext cfg tm
          (Some (VectorQuantizeLayer_L2 (hidden_size cfg) (phone_size cfg) (phone_dim cfg))))
      else if phone_type cfg = ''gb'' \<and> with_rec then
        Inr (phonetic_finish ext cfg tm
          (Some (VectorQuantizeLayer_GB (hidden_size cfg) (phone_size cfg) (phone_dim cfg))))
      else if phone_type cfg = ''gst'' \<and> with_rec then
        Inr (phonetic_finish ext cfg tm
          (Some (GlobalStyleTokenLayer (hidden_size cfg) (phone_size cfg) (phone_dim cfg))))
      else if phone_type cfg = ''linear'' \<and> with_rec then
        Inr (phonetic_finish ext cfg tm (Some (LinearLayer (hidden_size cfg) (phone_dim cfg))))
      else if phone_type cfg = ''none'' \<and> with_rec then
        Inr (phonetic_finish ext cfg tm None)
      else if with_rec then Inl NotImplementedError
      else Inr (phonetic_finish ext cfg tm None))"

text \<open>
  The speaker encoder's third branch tests \<^verbatim>\<open>config.phone_type == 'none'\<close>, as the
  source has it (line 270).
\<close>

definition TransformerSpeakerEncoder_init ::
  "externals \<Rightarrow> config \<Rightarrow> int \<Rightarrow> bool \<Rightarrow> pyerror + speaker_encoder" where
  "TransformerSpeakerEncoder_init ext cfg input_dim with_rec =
     (let tm = TransformerModel_new ext cfg input_dim None in
      if speaker_type cfg = ''gst'' \<and> with_rec then
        Inr (speaker_finish ext cfg tm
          (Some (GlobalStyleTokenLayer (hidden_size cfg) (speaker_size cfg) (speaker_dim cfg))))
      else if speaker_type cfg = ''linear'' \<and> with_rec then
        Inr (speaker_finish ext cfg tm (Some (LinearLayer (hidden_size cfg) (speaker_dim cfg))))
      else if phone_type cfg = ''none'' \<and> with_rec then
        Inr (speaker_finish ext cfg tm None)
      else if with_rec then Inl NotImplementedError
      else Inr (speaker_finish ext cfg tm None))"

section \<open>Loading pretrained weights\<close>

text \<open>\<^verbatim>\<open>sub in s\<close> and \<^verbatim>\<open>s.replace(old, new)\<close> on Python strings.\<close>

fun py_in :: "string \<Rightarrow> string \<Rightarrow> bool" where
  "py_in sub [] = (sub = [])"
| "py_in sub (c # cs) = (take (length sub) (c # cs) = sub \<or> py_in sub cs)"

function py_replace :: "string \<Rightarrow> string \<Rightarrow> string \<Rightarrow> string" where
  "py_replace old new [] = (if old = [] then new else [])"
| "py_replace old new (c # cs) =
     (if old = [] then new @ c # py_replace old new cs
      else if take (length old) (c # cs) = old
        then new @ py_replace old new (drop (length old) (c # cs))
      else c # py_replace old new cs)"
  by pat_completeness auto
termination
  by (relation "measure (\<lambda>(old, new, s). length s)") auto

text \<open>
  An ordered dictionary as an association list with distinct keys: \<^verbatim>\<open>d[k] = v\<close> keeps
  the place of a key that is there and appends a new one, \<^verbatim>\<open>d.pop(k)\<close> removes it.
\<close>

fun dict_set :: "'k \<Rightarrow> 'v \<Rightarrow> ('k \<times> 'v) list \<Rightarrow> ('k \<times> 'v) list" where
  "dict_set k v [] = [(k, v)]"
| "dict_set k v (p # ps) = (if fst p = k then (k, v) # ps else p # dict_set k v ps)"

definition dict_del :: "'k \<Rightarrow> ('k \<times> 'v) list \<Rightarrow> ('k \<times> 'v) list" where
  "dict_del k d = filter (\<lambda>p. fst p \<noteq> k) d"

text \<open>
  The first loop of \<^verbatim>\<open>load_model\<close>: the new name of a key, if any. The second
  \<^verbatim>\<open>if\<close> replaces in \<^verbatim>\<open>key\<close>, not in \<^verbatim>\<open>new_key\<close>; \<^verbatim>\<open>if new_key\<close> is the
  truth value of an optional string.
\<close>

definition new_key_of :: "string \<Rightarrow> string option" where
  "new_key_of key =
     (let new_key = None;
          new_key = (if py_in ''gamma'' key then Some (py_replace ''gamma'' ''weight'' key)
                     else new_key);
          new_key = (if py_in ''beta'' key then Some (py_replace ''beta'' ''bias'' key)
                     else new_key)
      in case new_key of None \<Rightarrow> None | Some k \<Rightarrow> (if k = [] then None else Some k))"

definition key_pairs :: "state_dict \<Rightarrow> (string \<times> string) list" where
  "key_pairs sd =
     concat (map (\<lambda>key. case new_key_of key of None \<Rightarrow> [] | Some k \<Rightarrow> [(key, k)]) (map fst sd))"

text \<open>
  The second loop, \<^verbatim>\<open>state_dict[new_key] = state_dict.pop(old_key)\<close>: it returns the
  exception raised, if any, and the dictionary as the loop left it.
\<close>

fun rename_keys :: "(string \<times> string) list \<Rightarrow> state_dict \<Rightarrow> pyerror option \<times> state_dict" where
  "rename_keys [] sd = (None, sd)"
| "rename_keys ((old_key, new_key) # ps) sd =
     (case map_of sd old_key of
        None \<Rightarrow> (Some KeyError, sd)
      | Some v \<Rightarrow> rename_keys ps (dict_set new_key v (dict_del old_key sd)))"

text \<open>
  \<^verbatim>\<open>torch.nn.Module._load_from_state_dict\<close> with \<^verbatim>\<open>strict=True\<close>, as PyTorch defines
  it. For each parameter or buffer of the module itself, with \<^verbatim>\<open>key = prefix + name\<close>:
  a key of the dictionary with another shape adds an error message and leaves the
  parameter, a key with the same shape is copied into the parameter in place, and a key
  that is not there is added to \<^verbatim>\<open>missing_keys\<close>. The result is the parameter after
  the call, the missing keys and the error messages (by key).
\<close>

definition load_param ::
  "state_dict \<Rightarrow> string \<Rightarrow> string \<times> param \<Rightarrow> (string \<times> param) \<times> string list \<times> string list" where
  "load_param sd prefix np =
     (let key = prefix @ fst np in
      case map_of sd key of
        None \<Rightarrow> (np, [key], [])
      | Some input_param \<Rightarrow>
          if shape input_param = shape (snd np)
          then ((fst np, Param (shape (snd np)) (data input_param)), [], [])
          else (np, [], [key]))"

text \<open>
  Its second loop: a key of the dictionary under the prefix is unexpected when the
  part of its name up to the next dot names neither a child nor a parameter of the
  module.
\<close>

definition unexpected_in :: "module \<Rightarrow> state_dict \<Rightarrow> string \<Rightarrow> string list" where
  "unexpected_in m sd prefix =
     filter (\<lambda>key. take (length prefix) key = prefix \<and>
                   (let input_name = takeWhile (\<lambda>c. c \<noteq> CHR ''.'') (drop (length prefix) key)
                    in input_name \<notin> set (map fst (children m)) \<and>
                       input_name \<notin> set (map fst (parameters m))))
       (map fst sd)"

text \<open>
  The inner function \<^verbatim>\<open>load(module, prefix)\<close>: the module itself, then every child
  that is not \<^verbatim>\<open>None\<close> under \<^verbatim>\<open>prefix + name + '.'\<close>. It returns the module tree after
  the in-place copies, and what it appended to \<^verbatim>\<open>missing_keys\<close>,
  \<^verbatim>\<open>unexpected_keys\<close> and \<^verbatim>\<open>error_msgs\<close>.
\<close>

fun load :: "state_dict \<Rightarrow> module \<Rightarrow> string \<Rightarrow> module \<times> string list \<times> string list \<times> string list"
  and load_children ::
    "state_dict \<Rightarrow> (string \<times> module option) list \<Rightarrow> string
      \<Rightarrow> (string \<times> module option) list \<times> string list \<times> string list \<times> string list" where
  "load sd (Module ps cs) prefix =
     (let rs = map (load_param sd prefix) ps;
          r = load_children sd cs prefix
      in (Module (map fst rs) (fst r),
          concat (map (\<lambda>x. fst (snd x)) rs) @ fst (snd r),
          unexpected_in (Module ps cs) sd prefix @ fst (snd (snd r)),
          concat (map (\<lambda>x. snd (snd x)) rs) @ snd (snd (snd r))))"
| "load_children sd [] prefix = ([], [], [], [])"
| "load_children sd ((name, None) # cs) prefix =
     (let r = load_children sd cs prefix
      in ((name, None) # fst r, fst (snd r), fst (snd (snd r)), snd (snd (snd r))))"
| "load_children sd ((name, Some child) # cs) prefix =
     (let c = load sd child (prefix @ name @ ''.'');
          r = load_children sd cs prefix
      in ((name, Some (fst c)) # fst r,
          fst (snd c) @ fst (snd r),
          fst (snd (snd c)) @ fst (snd (snd r)),
          snd (snd (snd c)) @ snd (snd (snd r))))"

text \<open>
  \<^verbatim>\<open>load_model\<close> mutates its two arguments, so its result holds the exception it
  raised (\<open>None\<close> when it returned the target), the target module tree and the
  caller's dictionary as it left them, and the keys it printed as not initialized and
  as not used. Every exception in the body is caught and replaced by
  \<^verbatim>\<open>RuntimeError\<close>.
\<close>

record load_result =
  raised :: "pyerror option"
  target :: module
  state :: state_dict
  missing_keys :: "string list"
  unexpected_keys :: "string list"

definition load_model :: "module \<Rightarrow> state_dict \<Rightarrow> load_result" where
  "load_model transformer_model state_dict =
     (case rename_keys (key_pairs state_dict) state_dict of
        (Some e, sd) \<Rightarrow>
          \<lparr>raised = Some RuntimeError, target = transformer_model, state = sd,
           missing_keys = [], unexpected_keys = []\<rparr>
      | (None, sd) \<Rightarrow>
          (case load sd transformer_model [] of
             (m, missing, unexpected, error_msgs) \<Rightarrow>
               \<lparr>raised = (if length error_msgs > 0 then Some RuntimeError else None),
                target = m, state = sd,
                missing_keys = missing, unexpected_keys = unexpected\<rparr>))"

section \<open>Observing a module tree\<close>

text \<open>
  The parameters of a module tree by their full dotted names, as
  \<^verbatim>\<open>Module.named_parameters\<close> and \<^verbatim>\<open>state_dict\<close> list them: the module's own, then each
  child's under the child's name.
\<close>

fun named_parameters :: "module \<Rightarrow> string \<Rightarrow> (string \<times> param) list"
  and named_children :: "(string \<times> module option) list \<Rightarrow> string \<Rightarrow> (string \<times> param) list" where
  "named_parameters (Module ps cs) prefix =
     map (\<lambda>np. (prefix @ fst np, snd np)) ps @ named_children cs prefix"
| "named_children [] prefix = []"
| "named_children ((name, None) # cs) prefix = named_children cs prefix"
| "named_children ((name, Some child) # cs) prefix =
     named_parameters child (prefix @ name @ ''.'') @ named_children cs prefix"

text \<open>
  What a dictionary does to one named parameter: an entry of that name and shape
  replaces its values; an entry of another shape is a mismatch.
\<close>

definition assigned :: "state_dict \<Rightarrow> string \<times> param \<Rightarrow> string \<times> param" where
  "assigned sd kp =
     (case map_of sd (fst kp) of
        None \<Rightarrow> kp
      | Some input_param \<Rightarrow>
          if shape input_param = shape (snd kp)
          then (fst kp, Param (shape (snd kp)) (data input_param))
          else kp)"

definition mismatched :: "state_dict \<Rightarrow> string \<times> param \<Rightarrow> bool" where
  "mismatched sd kp =
     (case map_of sd (fst kp) of
        None \<Rightarrow> False
      | Some input_param \<Rightarrow> shape input_param \<noteq> shape (snd kp))"

section \<open>The dual model: construction\<close>

text \<open>
  \<^verbatim>\<open>torch.load\<close> (PyTorch, outside the repository) opens a string as a path of the file
  system \<open>fs\<close> and takes any other object for an open file; a list has none of a
  file's methods.
\<close>

definition torch_load :: "(string \<Rightarrow> checkpoint option) \<Rightarrow> pyval \<Rightarrow> pyerror + checkpoint" where
  "torch_load fs f =
     (case f of
        PStr path \<Rightarrow> (case fs path of None \<Rightarrow> Inl FileNotFoundError | Some c \<Rightarrow> Inr c)
      | PList xs \<Rightarrow> Inl AttributeError)"

text \<open>Line 137: \<^verbatim>\<open>if len(config.pre_train) == 1: config.pre_train = [config.pre_train]\<close>.\<close>

definition normalize_pre_train :: "config \<Rightarrow> config" where
  "normalize_pre_train cfg =
     (if py_len (pre_train cfg) = 1 then cfg\<lparr>pre_train := PList [pre_train cfg]\<rparr> else cfg)"

text \<open>
  Lines 140 and 141 for one encoder:
  \<^verbatim>\<open>enc.Transformer = load_model(enc.Transformer, all_states['Transformer'])\<close>.
\<close>

definition load_encoder ::
  "'a encoder_scheme option \<Rightarrow> checkpoint \<Rightarrow> pyerror + 'a encoder_scheme option" where
  "load_encoder enc all_states =
     (case enc of
        None \<Rightarrow> Inl AttributeError
      | Some e \<Rightarrow>
          (case map_of all_states ''Transformer'' of
             None \<Rightarrow> Inl KeyError
           | Some sd \<Rightarrow>
               (let r = load_model (Transformer e) sd in
                case raised r of
                  Some err \<Rightarrow> Inl err
                | None \<Rightarrow> Inr (Some (e\<lparr>Transformer := target r\<rparr>)))))"

text \<open>The weight handling of the constructor, lines 136 to 141.\<close>

definition load_weights ::
  "(string \<Rightarrow> checkpoint option) \<Rightarrow> config \<Rightarrow> encoder option \<Rightarrow> speaker_encoder option
    \<Rightarrow> pyerror + (encoder option \<times> speaker_encoder option)" where
  "load_weights fs cfg0 pe se =
     (if py_len (pre_train cfg0) > 0 then
        (let cfg = normalize_pre_train cfg0 in
         and_then (py_first (pre_train cfg)) (\<lambda>f1.
         and_then (torch_load fs f1) (\<lambda>all_states1.
         and_then (py_last (pre_train cfg)) (\<lambda>f2.
         and_then (torch_load fs f2) (\<lambda>all_states2.
         and_then (if phone_dim cfg \<noteq> 0 then load_encoder pe all_states1 else Inr pe) (\<lambda>pe'.
         and_then (if speaker_dim cfg \<noteq> 0 then load_encoder se all_states2 else Inr se) (\<lambda>se'.
         Inr (pe', se'))))))))
      else Inr (pe, se))"

text \<open>Lines 114 to 124: the width of the fused code.\<close>

definition code_dim_of ::
  "config \<Rightarrow> encoder option \<Rightarrow> speaker_encoder option \<Rightarrow> pyerror + int" where
  "code_dim_of cfg pe se =
     (if phone_dim cfg = 0 \<and> speaker_dim cfg = 0 then Inl ValueError
      else if phone_dim cfg = 0 \<or> speaker_dim cfg = 0 then
        Inr (max (phone_dim cfg) (speaker_dim cfg))
      else if combine cfg = ''concat'' then
        (case (pe, se) of
           (Some p, Some s) \<Rightarrow> Inr (out_dim p + out_dim s)
         | _ \<Rightarrow> Inl AttributeError)
      else if combine cfg = ''add'' then
        (case (pe, se) of
           (Some p, Some s) \<Rightarrow> (if out_dim p = out_dim s then Inr (out_dim p) else Inl AssertionError)
         | _ \<Rightarrow> Inl AttributeError)
      else Inl NotImplementedError)"

text \<open>
  The model instance. \<open>code_dim\<close> is the constructor's local variable, kept because the
  decoder stage and the prediction head are built from it; \<open>SpecHead\<close> holds the two
  dimensions the head is built with.
\<close>

record model =
  output_attentions :: bool
  self_decoder :: bool
  self_use_pe :: bool
  self_combine :: string
  self_phone_dim :: int
  self_speaker_dim :: int
  self_average_pooling :: bool
  PhoneticTransformer :: "encoder option"
  SpeakerTransformer :: "speaker_encoder option"
  code_dim :: int
  SPE :: "real option"
  SpecTransformer :: "module option"
  SpecHead :: "int \<times> int option"

definition DualTransformer_init ::
  "externals \<Rightarrow> (string \<Rightarrow> checkpoint option) \<Rightarrow> config \<Rightarrow> int \<Rightarrow> int option \<Rightarrow> bool
    \<Rightarrow> pyerror + model" where
  "DualTransformer_init ext fs cfg input_dim output_dim out_att =
     (if \<not> dual_transformer cfg then Inl AssertionError
      else
        and_then (if phone_dim cfg \<noteq> 0
                  then and_then (TransformerPhoneticEncoder_init ext cfg input_dim True)
                         (\<lambda>p. Inr (Some p))
                  else Inr None) (\<lambda>pe.
        and_then (if speaker_dim cfg \<noteq> 0
                  then and_then (TransformerSpeakerEncoder_init ext cfg input_dim True)
                         (\<lambda>s. Inr (Some s))
                  else Inr None) (\<lambda>se.
        and_then (code_dim_of cfg pe se) (\<lambda>cd.
        and_then (load_weights fs cfg pe se) (\<lambda>(pe', se').
          Inr \<lparr>output_attentions = out_att,
               self_decoder = decoder cfg,
               self_use_pe = intermediate_pe cfg,
               self_combine = combine cfg,
               self_phone_dim = phone_dim cfg,
               self_speaker_dim = speaker_dim cfg,
               self_average_pooling = average_pooling cfg,
               PhoneticTransformer =
                 map_option (\<lambda>p. p\<lparr>Transformer := init_Transformer_weights ext (Transformer p)\<rparr>) pe',
               SpeakerTransformer =
                 map_option (\<lambda>s. s\<lparr>Transformer := init_Transformer_weights ext (Transformer s)\<rparr>) se',
               code_dim = cd,
               SPE = (if decoder cfg \<and> intermediate_pe cfg then Some 1 else None),
               SpecTransformer =
                 (if decoder cfg
                  then Some (init_Transformer_weights ext
                         (TransformerModel_new ext cfg cd (Some (intermediate_pe cfg))))
                  else None),
               SpecHead =
                 ((case output_dim of None \<Rightarrow> input_dim | Some d \<Rightarrow> d),
                  (if decoder cfg then None else Some cd))\<rparr>)))))"

section \<open>Tensor operations\<close>

text \<open>
  The list model holds a tensor's shape in its lists, so it stands for the tensors with
  at least one batch item and one timestep, whose three sizes can be read back.
  \<^verbatim>\<open>x.size(1)\<close> is the number of timesteps of the first batch item.
\<close>

definition size1 :: "tensor \<Rightarrow> nat" where
  "size1 x = (case x of [] \<Rightarrow> 0 | b # bs \<Rightarrow> length b)"

text \<open>\<^verbatim>\<open>x.repeat(1, n, 1)\<close>: every batch item is tiled \<open>n\<close> times along time.\<close>

definition repeat_time :: "nat \<Rightarrow> tensor \<Rightarrow> tensor" where
  "repeat_time n x = map (\<lambda>b. concat (replicate n b)) x"

text \<open>
  \<^verbatim>\<open>x.mean(dim=1).unsqueeze(1)\<close>: per batch item the mean over its timesteps, feature by
  feature, as the item's single timestep.
\<close>

definition mean_rows :: "real list list \<Rightarrow> real list" where
  "mean_rows b =
     (case b of
        [] \<Rightarrow> []
      | r # rs \<Rightarrow> map (\<lambda>h. sum_list (map (\<lambda>row. row ! h) b) / real (length b)) [0..<length r])"

definition mean_pool :: "tensor \<Rightarrow> tensor" where
  "mean_pool x = map (\<lambda>b. [mean_rows b]) x"

text \<open>
  \<^verbatim>\<open>torch.cat((p, s), dim=2)\<close> needs equal sizes along batch and time and joins the
  feature lists; it raises \<^verbatim>\<open>RuntimeError\<close> otherwise.
\<close>

definition torch_cat2 :: "tensor \<Rightarrow> tensor \<Rightarrow> pyerror + tensor" where
  "torch_cat2 p s =
     (if map length p = map length s then Inr (map2 (map2 (@)) p s) else Inl RuntimeError)"

text \<open>
  \<^verbatim>\<open>p + s\<close> with PyTorch's broadcasting: along each axis the sizes are equal, or one
  of them is 1 and that entry is used against every entry of the other; any other pair
  of sizes raises \<^verbatim>\<open>RuntimeError\<close>.
\<close>

fun collect :: "(pyerror + 'a) list \<Rightarrow> pyerror + 'a list" where
  "collect [] = Inr []"
| "collect (x # xs) = and_then x (\<lambda>v. and_then (collect xs) (\<lambda>vs. Inr (v # vs)))"

definition broadcast ::
  "('a \<Rightarrow> 'a \<Rightarrow> pyerror + 'b) \<Rightarrow> 'a list \<Rightarrow> 'a list \<Rightarrow> pyerror + 'b list" where
  "broadcast f xs ys =
     (if length xs = length ys then collect (map2 f xs ys)
      else if length xs = 1 then collect (map (f (hd xs)) ys)
      else if length ys = 1 then collect (map (\<lambda>x. f x (hd ys)) xs)
      else Inl RuntimeError)"

definition tensor_add :: "tensor \<Rightarrow> tensor \<Rightarrow> pyerror + tensor" where
  "tensor_add p s = broadcast (broadcast (broadcast (\<lambda>a b. Inr (a + b)))) p s"

text \<open>\<^verbatim>\<open>self.SPE * pos_enc\<close>, a one-element tensor times a tensor.\<close>

definition scale :: "real \<Rightarrow> tensor \<Rightarrow> tensor" where
  "scale c x = map (map (map (\<lambda>a. c * a))) x"

text \<open>
  \<^verbatim>\<open>t.masked_select(mask)\<close> for a Boolean mask of the tensor's shape: the selected
  entries in row-major order. \<^verbatim>\<open>mask.sum()\<close> counts the selected entries.
  \<^verbatim>\<open>nn.L1Loss()\<close> is the mean of the absolute differences.
\<close>

definition masked_select :: "tensor \<Rightarrow> mask \<Rightarrow> real list" where
  "masked_select t m = map fst (filter snd (zip (concat (concat t)) (concat (concat m))))"

definition mask_sum :: "mask \<Rightarrow> nat" where
  "mask_sum m = length (filter id (concat (concat m)))"

definition L1Loss :: "real list \<Rightarrow> real list \<Rightarrow> real" where
  "L1Loss a b = sum_list (map2 (\<lambda>x y. \<bar>x - y\<bar>) a b) / real (length a)"

section \<open>Forward passes\<close>

text \<open>
  Both encoders return the attention traces beside the code; with
  \<^verbatim>\<open>output_attentions\<close> off the source returns the code alone and the traces are not
  looked at.
\<close>

definition apply_recognizer ::
  "externals \<Rightarrow> 'a encoder_scheme \<Rightarrow> tensor \<Rightarrow> pyerror + tensor" where
  "apply_recognizer ext e sequence_output =
     (if with_recognizer e then
        (case Recognizer e of
           None \<Rightarrow> Inl AttributeError
         | Some r \<Rightarrow> Recognizer_forward ext r sequence_output)
      else Inr sequence_output)"

definition TransformerPhoneticEncoder_forward ::
  "externals \<Rightarrow> encoder \<Rightarrow> tensor \<Rightarrow> tensor \<Rightarrow> tensor option \<Rightarrow> tensor option
    \<Rightarrow> pyerror + (tensor list \<times> tensor)" where
  "TransformerPhoneticEncoder_forward ext e spec_input pos_enc attention_mask head_mask =
     and_then (TransformerModel_forward ext (Transformer e) spec_input (Some pos_enc)
                 attention_mask head_mask) (\<lambda>(all_attentions, sequence_output).
     and_then (apply_recognizer ext e sequence_output) (\<lambda>phonetic_code.
     Inr (all_attentions, phonetic_code)))"

definition TransformerSpeakerEncoder_forward ::
  "externals \<Rightarrow> speaker_encoder \<Rightarrow> tensor \<Rightarrow> tensor \<Rightarrow> tensor option \<Rightarrow> tensor option
    \<Rightarrow> pyerror + (tensor list \<times> tensor)" where
  "TransformerSpeakerEncoder_forward ext e spec_input pos_enc attention_mask head_mask =
     and_then (TransformerModel_forward ext (Transformer e) spec_input (Some pos_enc)
                 attention_mask head_mask) (\<lambda>(all_attentions, sequence_output).
     and_then (apply_recognizer ext e
                 (if enc_average_pooling e then mean_pool sequence_output else sequence_output))
       (\<lambda>speaker_code.
     Inr (all_attentions, speaker_code)))"

text \<open>The arguments of \<^verbatim>\<open>forward\<close> and its three shapes of result.\<close>

record inputs =
  phonetic_input :: tensor
  speaker_input :: tensor
  pos_enc :: tensor
  mask_label :: "mask option"
  attention_mask :: "tensor option"
  spec_label :: "tensor option"
  head_mask :: "tensor option"

datatype outputs =
    Loss_and_pred real tensor
  | Attentions_and_pred "tensor list option list" tensor
  | Pred_and_state tensor tensor

text \<open>
  Lines 147 to 162: each encoder that exists runs; the other leaves \<^verbatim>\<open>None\<close> for its
  code (and for its traces).
\<close>

definition run_phonetic ::
  "externals \<Rightarrow> model \<Rightarrow> inputs \<Rightarrow> pyerror + (tensor list option \<times> tensor option)" where
  "run_phonetic ext m inp =
     (if self_phone_dim m \<noteq> 0 then
        (case PhoneticTransformer m of
           None \<Rightarrow> Inl AttributeError
         | Some e \<Rightarrow>
             and_then (TransformerPhoneticEncoder_forward ext e (phonetic_input inp) (pos_enc inp)
                         (attention_mask inp) (head_mask inp))
               (\<lambda>(att, c). Inr (Some att, Some c)))
      else Inr (None, None))"

definition run_speaker ::
  "externals \<Rightarrow> model \<Rightarrow> inputs \<Rightarrow> pyerror + (tensor list option \<times> tensor option)" where
  "run_speaker ext m inp =
     (if self_speaker_dim m \<noteq> 0 then
        (case SpeakerTransformer m of
           None \<Rightarrow> Inl AttributeError
         | Some e \<Rightarrow>
             and_then (TransformerSpeakerEncoder_forward ext e (speaker_input inp) (pos_enc inp)
                         (attention_mask inp) (head_mask inp))
               (\<lambda>(att, c). Inr (Some att, Some c)))
      else Inr (None, None))"

text \<open>
  Lines 164 to 166, \<^verbatim>\<open>speaker_code.repeat(1, phonetic_code.size(1), 1)\<close>: a method of
  \<^verbatim>\<open>None\<close> is an \<^verbatim>\<open>AttributeError\<close>.
\<close>

definition replicate_code :: "model \<Rightarrow> tensor option \<Rightarrow> tensor option \<Rightarrow> pyerror + tensor option" where
  "replicate_code m phonetic_code speaker_code =
     (if self_speaker_dim m \<noteq> 0 \<and> self_average_pooling m then
        (case speaker_code of
           None \<Rightarrow> Inl AttributeError
         | Some s \<Rightarrow>
             (case phonetic_code of
                None \<Rightarrow> Inl AttributeError
              | Some p \<Rightarrow> Inr (Some (repeat_time (size1 p) s))))
      else Inr speaker_code)"

text \<open>Lines 168 to 178: the fused code.\<close>

definition both_codes ::
  "(tensor \<Rightarrow> tensor \<Rightarrow> pyerror + tensor) \<Rightarrow> tensor option \<Rightarrow> tensor option
    \<Rightarrow> pyerror + tensor option" where
  "both_codes f phonetic_code speaker_code =
     (case phonetic_code of
        None \<Rightarrow> Inl AttributeError
      | Some p \<Rightarrow>
          (case speaker_code of
             None \<Rightarrow> Inl AttributeError
           | Some s \<Rightarrow> and_then (f p s) (\<lambda>c. Inr (Some c))))"

definition combine_code :: "model \<Rightarrow> tensor option \<Rightarrow> tensor option \<Rightarrow> pyerror + tensor option" where
  "combine_code m phonetic_code speaker_code =
     (if self_speaker_dim m = 0 then Inr phonetic_code
      else if self_phone_dim m = 0 then Inr speaker_code
      else if self_combine m = ''concat'' then both_codes torch_cat2 phonetic_code speaker_code
      else if self_combine m = ''add'' then both_codes tensor_add phonetic_code speaker_code
      else Inl NotImplementedError)"

text \<open>
  Lines 145 to 178 together: the fused code of a forward call, with the traces of the
  two encoders.
\<close>

definition fused_code ::
  "externals \<Rightarrow> model \<Rightarrow> inputs \<Rightarrow> pyerror + (tensor list option list \<times> tensor option)" where
  "fused_code ext m inp =
     and_then (run_phonetic ext m inp) (\<lambda>(phonetic_attentions, phonetic_code).
     and_then (run_speaker ext m inp) (\<lambda>(speaker_attentions, speaker_code).
     and_then (replicate_code m phonetic_code speaker_code) (\<lambda>speaker_code.
     and_then (combine_code m phonetic_code speaker_code) (\<lambda>code.
     Inr ([phonetic_attentions, speaker_attentions], code)))))"

text \<open>Lines 180 to 192: the decoder stage, if any.\<close>

definition decoder_forward ::
  "externals \<Rightarrow> model \<Rightarrow> inputs \<Rightarrow> tensor \<Rightarrow> pyerror + (tensor list option list \<times> tensor)" where
  "decoder_forward ext m inp code =
     (if self_decoder m then
        (case SpecTransformer m of
           None \<Rightarrow> Inl AttributeError
         | Some t \<Rightarrow>
             and_then
               (if self_use_pe m
                then (case SPE m of
                        None \<Rightarrow> Inl AttributeError
                      | Some c \<Rightarrow> Inr (Some (scale c (pos_enc inp))))
                else Inr None) (\<lambda>pe.
             and_then (TransformerModel_forward ext t code pe (attention_mask inp) (head_mask inp))
               (\<lambda>(decoder_attentions, sequence_output).
             Inr ([Some decoder_attentions], sequence_output))))
      else Inr ([], code))"

text \<open>Lines 196 to 199: the objective, when both labels are given.\<close>

definition compute_objective :: "tensor \<Rightarrow> tensor \<Rightarrow> mask \<Rightarrow> pyerror + real" where
  "compute_objective pred_spec label selected =
     (if mask_sum selected > 0
      then Inr (L1Loss (masked_select pred_spec selected) (masked_select label selected))
      else Inl AssertionError)"

definition forward :: "externals \<Rightarrow> model \<Rightarrow> inputs \<Rightarrow> pyerror + outputs" where
  "forward ext m inp =
     and_then (fused_code ext m inp) (\<lambda>(all_attentions, code).
     and_then (case code of None \<Rightarrow> Inl AttributeError | Some c \<Rightarrow> decoder_forward ext m inp c)
       (\<lambda>(decoder_attentions, sequence_output).
     and_then (SpecHead_forward ext sequence_output) (\<lambda>(pred_spec, pred_state).
       (case spec_label inp of
          Some sl \<Rightarrow>
            (case mask_label inp of
               Some ml \<Rightarrow>
                 and_then (compute_objective pred_spec sl ml) (\<lambda>masked_spec_loss.
                 Inr (Loss_and_pred masked_spec_loss pred_spec))
             | None \<Rightarrow>
                 (if output_attentions m
                  then Inr (Attentions_and_pred (all_attentions @ decoder_attentions) pred_spec)
                  else Inr (Pred_and_state pred_spec pred_state)))
        | None \<Rightarrow>
            (if output_attentions m
             then Inr (Attentions_and_pred (all_attentions @ decoder_attentions) pred_spec)
             else Inr (Pred_and_state pred_spec pred_state))))))"

section \<open>Example inputs\<close>

text \<open>
  Collaborators for the concrete instances: a one-parameter tree for every
  \<^verbatim>\<open>TransformerModel\<close>, an initialisation that changes nothing, a sequence encoder and
  a prediction head that return their input, and recognizers that keep, of every
  timestep, as many features as their output width.
\<close>

definition example_ext :: externals where
  "example_ext =
     \<lparr>TransformerModel_new = (\<lambda>c d w. Module [(''w'', Param [1] [0])] []),
      init_Transformer_weights = (\<lambda>m. m),
      TransformerModel_forward = (\<lambda>m x p a h. Inr ([], x)),
      Recognizer_forward = (\<lambda>r x. Inr (map (map (take (nat (recognizer_out_dim r)))) x)),
      SpecHead_forward = (\<lambda>x. Inr (x, x))\<rparr>"

definition example_config :: config where
  "example_config =
     \<lparr>hidden_size = 768, dual_transformer = True, decoder = False, intermediate_pe = False,
      combine = ''concat'', phone_type = ''linear'', phone_size = 0, phone_dim = 5,
      speaker_type = ''linear'', speaker_size = 0, speaker_dim = 3, average_pooling = False,
      pre_train = PList []\<rparr>"

definition example_inputs :: inputs where
  "example_inputs =
     \<lparr>phonetic_input = [[[1, 2], [3, 4]]], speaker_input = [[[1, 2], [3, 4]]],
      pos_enc = [[[0, 0], [0, 0]]], mask_label = None, attention_mask = None,
      spec_label = None, head_mask = None\<rparr>"

definition example_model :: model where
  "example_model =
     \<lparr>output_attentions = False, self_decoder = False, self_use_pe = False,
      self_combine = ''add'', self_phone_dim = 2, self_speaker_dim = 2,
      self_average_pooling = False, PhoneticTransformer = None, SpeakerTransformer = None,
      code_dim = 2, SPE = None, SpecTransformer = None, SpecHead = (2, Some 2)\<rparr>"

text \<open>
  A configuration with average pooling whose sequence encoders are two features wide and
  whose linear recognizers keep one.
\<close>

definition pooled_config :: config where
  "pooled_config =
     \<lparr>hidden_size = 2, dual_transformer = True, decoder = False, intermediate_pe = False,
      combine = ''concat'', phone_type = ''linear'', phone_size = 0, phone_dim = 1,
      speaker_type = ''linear'', speaker_size = 0, speaker_dim = 1, average_pooling = True,
      pre_train = PList []\<rparr>"

section \<open>Properties\<close>

subsection \<open>Construction\<close>

text \<open>
  C1 (the code departs from the claim). With exactly one encoder the constructor takes
  \<open>max phone_dim speaker_dim\<close> for the width of the fused code, not the encoder's
  \<open>out_dim\<close> as the two-encoder branches do. For a phonetic encoder of type
  \<^verbatim>\<open>'none'\<close> with \<open>hidden_size = 768\<close> and \<open>phone_dim = 5\<close>, and no speaker encoder,
  construction succeeds, the encoder's \<open>out_dim\<close> is 768 and \<open>code_dim\<close> is 5.
\<close>

theorem code_dim_single_encoder_is_max_of_dims:
  "\<exists>m p. DualTransformer_init ext fs
      \<lparr>hidden_size = 768, dual_transformer = True, decoder = False, intermediate_pe = False,
       combine = ''concat'', phone_type = ''none'', phone_size = 0, phone_dim = 5,
       speaker_type = ''linear'', speaker_size = 0, speaker_dim = 0, average_pooling = False,
       pre_train = PList []\<rparr> input_dim output_dim out_att = Inr m
     \<and> PhoneticTransformer m = Some p \<and> SpeakerTransformer m = None
     \<and> out_dim p = 768 \<and> code_dim m = 5"
  by (simp add: DualTransformer_init_def and_then_def TransformerPhoneticEncoder_init_def
      phonetic_finish_def code_dim_of_def load_weights_def)

text \<open>
  C6 (the code departs from the claim). The speaker encoder's \<^verbatim>\<open>'none'\<close> branch tests
  \<open>phone_type\<close>. So a speaker type \<^verbatim>\<open>'none'\<close> beside a phonetic type \<^verbatim>\<open>'l2'\<close> raises
  \<^verbatim>\<open>NotImplementedError\<close>, and an unknown speaker type beside a phonetic type
  \<^verbatim>\<open>'none'\<close> builds an encoder with no recognizer and \<open>out_dim = hidden_size\<close>.
\<close>

theorem speaker_dispatch_tests_phone_type:
  "TransformerSpeakerEncoder_init ext (cfg\<lparr>speaker_type := ''none'', phone_type := ''l2''\<rparr>)
      input_dim True = Inl NotImplementedError
   \<and> (\<exists>e. TransformerSpeakerEncoder_init ext
            (cfg\<lparr>speaker_type := ''bogus'', phone_type := ''none''\<rparr>) input_dim True = Inr e
          \<and> Recognizer e = None \<and> with_recognizer e = False \<and> out_dim e = hidden_size cfg)"
  by (simp add: TransformerSpeakerEncoder_init_def speaker_finish_def)

lemma phonetic_init_supported:
  "phone_type cfg \<in> {''l2'', ''gb'', ''gst'', ''linear'', ''none''} \<Longrightarrow>
   \<exists>p. TransformerPhoneticEncoder_init ext cfg d True = Inr p \<and>
       out_dim p = (if phone_type cfg = ''none'' then hidden_size cfg else phone_dim cfg)"
  by (auto simp add: TransformerPhoneticEncoder_init_def phonetic_finish_def Let_def)

lemma speaker_init_supported:
  "speaker_type cfg \<in> {''gst'', ''linear''} \<Longrightarrow>
   \<exists>s. TransformerSpeakerEncoder_init ext cfg d True = Inr s \<and> out_dim s = speaker_dim cfg"
  by (auto simp add: TransformerSpeakerEncoder_init_def speaker_finish_def Let_def)

text \<open>
  C2, as stated, fails: the constructor first asserts \<open>dual_transformer\<close>, so a
  configuration with two encoders and \<^verbatim>\<open>'concat'\<close>, in none of the claim's three cases,
  fails when that flag is off.
\<close>

theorem construction_fails_without_dual_flag:
  "DualTransformer_init example_ext (\<lambda>p. None) (example_config\<lparr>dual_transformer := False\<rparr>)
      80 None False = Inl AssertionError
   \<and> phone_dim (example_config\<lparr>dual_transformer := False\<rparr>) = 5
   \<and> speaker_dim (example_config\<lparr>dual_transformer := False\<rparr>) = 3
   \<and> combine (example_config\<lparr>dual_transformer := False\<rparr>) = ''concat''
   \<and> phone_type (example_config\<lparr>dual_transformer := False\<rparr>) = ''linear''
   \<and> speaker_type (example_config\<lparr>dual_transformer := False\<rparr>) = ''linear''"
  by (simp add: DualTransformer_init_def example_config_def)

text \<open>
  C2, amended. For a configuration with no pretrained paths, a supported phonetic type
  and a speaker type \<^verbatim>\<open>'gst'\<close> or \<^verbatim>\<open>'linear'\<close>, construction fails exactly when
  \<open>dual_transformer\<close> is off, or both dimensions are zero, or both are nonzero and
  \<open>combine\<close> is \<^verbatim>\<open>'add'\<close> with different encoder widths, or both are nonzero and
  \<open>combine\<close> is neither \<^verbatim>\<open>'concat'\<close> nor \<^verbatim>\<open>'add'\<close>; in every other case it returns a
  model. The phonetic width is \<open>hidden_size\<close> for type \<^verbatim>\<open>'none'\<close> and \<open>phone_dim\<close>
  otherwise, the speaker width is \<open>speaker_dim\<close>.
\<close>

theorem construction_fails_iff:
  assumes "pre_train cfg = PList []"
    and "phone_type cfg \<in> {''l2'', ''gb'', ''gst'', ''linear'', ''none''}"
    and "speaker_type cfg \<in> {''gst'', ''linear''}"
  shows "(\<exists>e. DualTransformer_init ext fs cfg input_dim output_dim out_att = Inl e) \<longleftrightarrow>
     (\<not> dual_transformer cfg
      \<or> (phone_dim cfg = 0 \<and> speaker_dim cfg = 0)
      \<or> (phone_dim cfg \<noteq> 0 \<and> speaker_dim cfg \<noteq> 0 \<and> combine cfg = ''add'' \<and>
          (if phone_type cfg = ''none'' then hidden_size cfg else phone_dim cfg) \<noteq> speaker_dim cfg)
      \<or> (phone_dim cfg \<noteq> 0 \<and> speaker_dim cfg \<noteq> 0 \<and>
          combine cfg \<noteq> ''concat'' \<and> combine cfg \<noteq> ''add''))"
proof -
  obtain p where p: "TransformerPhoneticEncoder_init ext cfg input_dim True = Inr p"
    "out_dim p = (if phone_type cfg = ''none'' then hidden_size cfg else phone_dim cfg)"
    using phonetic_init_supported[OF assms(2)] by blast
  obtain s where s: "TransformerSpeakerEncoder_init ext cfg input_dim True = Inr s"
    "out_dim s = speaker_dim cfg"
    using speaker_init_supported[OF assms(3)] by blast
  show ?thesis
    using assms(1) p s
    by (simp add: DualTransformer_init_def and_then_def code_dim_of_def load_weights_def)
qed

theorem construction_fails_iff_witness:
  "(\<exists>e. DualTransformer_init example_ext (\<lambda>p. None) (example_config\<lparr>combine := ''add''\<rparr>)
          80 None False = Inl e)
   \<and> \<not> (\<exists>e. DualTransformer_init example_ext (\<lambda>p. None) example_config 80 None False = Inl e)"
  using construction_fails_iff
      [of "example_config\<lparr>combine := ''add''\<rparr>" example_ext "\<lambda>p. None" 80 None False]
    construction_fails_iff [of example_config example_ext "\<lambda>p. None" 80 None False]
  by (simp add: example_config_def)

text \<open>
  C9 (the code departs from the claim). For a list of one path, line 137 re-binds
  \<open>pre_train\<close> to a list holding that list, so \<^verbatim>\<open>torch.load\<close> is given the list of
  one path, not the path: the weight handling raises for every path and every file
  system, and so does the constructor of a configuration with both encoders.
\<close>

theorem single_path_is_wrapped_not_shared:
  "pre_train (normalize_pre_train (cfg\<lparr>pre_train := PList [PStr path]\<rparr>)) = PList [PList [PStr path]]
   \<and> load_weights fs (cfg\<lparr>pre_train := PList [PStr path]\<rparr>) pe se = Inl AttributeError
   \<and> DualTransformer_init ext fs (example_config\<lparr>pre_train := PList [PStr path]\<rparr>)
        input_dim output_dim out_att = Inl AttributeError"
  by (simp add: normalize_pre_train_def load_weights_def and_then_def torch_load_def
      DualTransformer_init_def example_config_def TransformerPhoneticEncoder_init_def
      TransformerSpeakerEncoder_init_def code_dim_of_def phonetic_finish_def speaker_finish_def)

subsection \<open>Forward\<close>

lemma init_fields:
  assumes "DualTransformer_init ext fs cfg d od oa = Inr m"
  shows "self_phone_dim m = phone_dim cfg" "self_speaker_dim m = speaker_dim cfg"
    "self_average_pooling m = average_pooling cfg" "self_combine m = combine cfg"
    "\<not> (phone_dim cfg = 0 \<and> speaker_dim cfg = 0)"
  using assms
  by (auto simp add: DualTransformer_init_def and_then_def code_dim_of_def
      split: if_splits sum.splits prod.splits)

lemma run_phonetic_absent: "self_phone_dim m = 0 \<Longrightarrow> run_phonetic ext m inp = Inr (None, None)"
  by (simp add: run_phonetic_def)

lemma replicate_without_phonetic:
  "self_speaker_dim m \<noteq> 0 \<Longrightarrow> self_average_pooling m \<Longrightarrow>
   replicate_code m None sc = Inl AttributeError"
  by (simp add: replicate_code_def split: option.splits)

text \<open>
  C10. A model constructed with \<open>phone_dim = 0\<close>, \<open>speaker_dim \<noteq> 0\<close> and average
  pooling fails on every forward call before a fused code exists; when the speaker
  encoder itself returns, the failure is the \<^verbatim>\<open>AttributeError\<close> of reading the
  sequence length of the absent phonetic code.
\<close>

theorem pooled_speaker_only_forward_fails:
  assumes "DualTransformer_init ext fs cfg input_dim output_dim out_att = Inr m"
    and "phone_dim cfg = 0" and "speaker_dim cfg \<noteq> 0" and "average_pooling cfg"
  shows "(\<exists>e. fused_code ext m inp = Inl e \<and> forward ext m inp = Inl e)
    \<and> (\<forall>r. run_speaker ext m inp = Inr r \<longrightarrow> forward ext m inp = Inl AttributeError)"
proof -
  have m: "self_phone_dim m = 0" "self_speaker_dim m \<noteq> 0" "self_average_pooling m"
    using init_fields[OF assms(1)] assms(2-4) by simp_all
  have "\<exists>e. fused_code ext m inp = Inl e"
    by (cases "run_speaker ext m inp")
      (auto simp add: fused_code_def and_then_def run_phonetic_absent[OF m(1)]
        replicate_without_phonetic[OF m(2,3)])
  moreover have "forward ext m inp = Inl AttributeError" if "run_speaker ext m inp = Inr r" for r
    using that
    by (cases r) (simp add: forward_def fused_code_def and_then_def run_phonetic_absent[OF m(1)]
        replicate_without_phonetic[OF m(2,3)])
  ultimately show ?thesis
    by (auto simp add: forward_def and_then_def)
qed

theorem pooled_speaker_only_forward_fails_witness:
  "\<exists>m. DualTransformer_init example_ext (\<lambda>p. None)
            (example_config\<lparr>phone_dim := 0, average_pooling := True\<rparr>) 80 None False = Inr m
     \<and> fused_code example_ext m example_inputs = Inl AttributeError
     \<and> forward example_ext m example_inputs = Inl AttributeError"
proof -
  have "\<exists>m. DualTransformer_init example_ext (\<lambda>p. None)
            (example_config\<lparr>phone_dim := 0, average_pooling := True\<rparr>) 80 None False = Inr m"
    by (simp add: DualTransformer_init_def and_then_def example_config_def
        TransformerSpeakerEncoder_init_def code_dim_of_def load_weights_def)
  then obtain m where m: "DualTransformer_init example_ext (\<lambda>p. None)
            (example_config\<lparr>phone_dim := 0, average_pooling := True\<rparr>) 80 None False = Inr m" ..
  have "\<exists>r. run_speaker example_ext m example_inputs = Inr r"
    using m
    by (auto simp add: DualTransformer_init_def and_then_def example_config_def
        TransformerSpeakerEncoder_init_def code_dim_of_def load_weights_def run_speaker_def
        TransformerSpeakerEncoder_forward_def example_ext_def apply_recognizer_def
        speaker_finish_def)
  with pooled_speaker_only_forward_fails[OF m, of example_inputs]
  have "fused_code example_ext m example_inputs = Inl AttributeError
      \<and> forward example_ext m example_inputs = Inl AttributeError"
    by (auto simp add: example_config_def)
  with m show ?thesis by blast
qed

subsection \<open>Fusion\<close>

lemma collect_Inr: "collect (map (\<lambda>z. Inr (h z)) zs) = Inr (map h zs)"
  by (induction zs) (simp_all add: and_then_def)

lemma zip_same_image:
  "map f xs = map f ys \<Longrightarrow> (x, y) \<in> set (zip xs ys) \<Longrightarrow> f x = f y"
proof (induction xs arbitrary: ys)
  case Nil
  then show ?case by simp
next
  case (Cons a xs)
  then show ?case by (cases ys) auto
qed

lemma broadcast_same:
  assumes "length xs = length ys"
    and "\<And>x y. (x, y) \<in> set (zip xs ys) \<Longrightarrow> f x y = Inr (g x y)"
  shows "broadcast f xs ys = Inr (map2 g xs ys)"
proof -
  have "map2 f xs ys = map (\<lambda>z. Inr (case z of (x, y) \<Rightarrow> g x y)) (zip xs ys)"
    using assms(2) by (auto intro!: map_cong)
  then have "collect (map2 f xs ys) = Inr (map2 g xs ys)"
    by (simp only: collect_Inr)
  then show ?thesis
    using assms(1) by (simp add: broadcast_def)
qed

lemma add_rows:
  "length r1 = length r2 \<Longrightarrow>
   broadcast (\<lambda>a b. Inr (a + b)) r1 r2 = Inr (map2 (+) r1 (r2 :: real list))"
  by (rule broadcast_same) simp_all

lemma add_items:
  assumes "map length b1 = map length b2"
  shows "broadcast (broadcast (\<lambda>a b. Inr (a + b))) b1 b2
    = Inr (map2 (map2 (+)) b1 (b2 :: real list list))"
proof (rule broadcast_same)
  show "length b1 = length b2" using assms by (metis length_map)
  fix x y assume "(x, y) \<in> set (zip b1 b2)"
  then have "length x = length y" using zip_same_image[OF assms] by blast
  then show "broadcast (\<lambda>a b. Inr (a + b)) x y = Inr (map2 (+) x y)" by (rule add_rows)
qed

lemma tensor_add_same_shape:
  assumes "map (map length) p = map (map length) s"
  shows "tensor_add p s = Inr (map2 (map2 (map2 (+))) p s)"
  unfolding tensor_add_def
proof (rule broadcast_same)
  show "length p = length s" using assms by (metis length_map)
  fix x y assume "(x, y) \<in> set (zip p s)"
  then have "map length x = map length y" using zip_same_image[OF assms] by blast
  then show "broadcast (broadcast (\<lambda>a b. Inr (a + b))) x y = Inr (map2 (map2 (+)) x y)"
    by (rule add_items)
qed

lemma cat_width:
  assumes "map length p = map length s" "b < length p" "t < length (p ! b)"
  shows "length (map2 (map2 (@)) p s ! b ! t) = length (p ! b ! t) + length (s ! b ! t)"
proof -
  have l: "length p = length s" using assms(1) by (metis length_map)
  have "length (p ! b) = length (s ! b)"
    using assms(1,2) l by (metis nth_map)
  then show ?thesis using assms l by simp
qed

lemma run_phonetic_code:
  "run_phonetic ext m inp = Inr (a, c) \<Longrightarrow> (c = None) = (self_phone_dim m = 0)"
  by (auto simp add: run_phonetic_def and_then_def split: if_splits option.splits sum.splits)

lemma run_speaker_code:
  "run_speaker ext m inp = Inr (a, c) \<Longrightarrow> (c = None) = (self_speaker_dim m = 0)"
  by (auto simp add: run_speaker_def and_then_def split: if_splits option.splits sum.splits)

text \<open>
  C3. A code is absent exactly when its encoder's dimension is zero. The fused code is
  the phonetic code itself when the speaker code is absent, and the speaker code when
  (only) the phonetic code is absent. With both present, \<^verbatim>\<open>'concat'\<close> on codes of equal
  batch and time sizes joins the feature lists, so every output width is the sum of
  the two widths, and \<^verbatim>\<open>'add'\<close> on codes of equal shape is the element-wise sum.
\<close>

theorem fusion_cases:
  "(run_phonetic ext m inp = Inr (pa, pc) \<longrightarrow> (pc = None) = (self_phone_dim m = 0))
   \<and> (run_speaker ext m inp = Inr (sa, sc) \<longrightarrow> (sc = None) = (self_speaker_dim m = 0))
   \<and> (self_speaker_dim m = 0 \<longrightarrow> combine_code m pc sc = Inr pc)
   \<and> (self_speaker_dim m \<noteq> 0 \<and> self_phone_dim m = 0 \<longrightarrow> combine_code m pc sc = Inr sc)
   \<and> (self_speaker_dim m \<noteq> 0 \<and> self_phone_dim m \<noteq> 0 \<and> self_combine m = ''concat''
        \<and> map length p = map length s \<longrightarrow>
      combine_code m (Some p) (Some s) = Inr (Some (map2 (map2 (@)) p s))
      \<and> (\<forall>b < length p. \<forall>t < length (p ! b).
           length (map2 (map2 (@)) p s ! b ! t) = length (p ! b ! t) + length (s ! b ! t)))
   \<and> (self_speaker_dim m \<noteq> 0 \<and> self_phone_dim m \<noteq> 0 \<and> self_combine m = ''add''
        \<and> map (map length) p = map (map length) s \<longrightarrow>
      combine_code m (Some p) (Some s) = Inr (Some (map2 (map2 (map2 (+))) p s)))"
  using run_phonetic_code [of ext m inp pa pc] run_speaker_code [of ext m inp sa sc]
  by (auto simp add: combine_code_def both_codes_def and_then_def torch_cat2_def
      tensor_add_same_shape cat_width)

theorem fusion_cases_witness:
  "combine_code example_model (Some [[[1, 2]]]) (Some [[[3, 4]]]) = Inr (Some [[[4, 6]]])
   \<and> combine_code (example_model\<lparr>self_combine := ''concat''\<rparr>) (Some [[[1, 2]]]) (Some [[[3, 4]]])
       = Inr (Some [[[1, 2, 3, 4]]])
   \<and> combine_code (example_model\<lparr>self_speaker_dim := 0\<rparr>) (Some [[[1, 2]]]) None
       = Inr (Some [[[1, 2]]])
   \<and> combine_code (example_model\<lparr>self_phone_dim := 0\<rparr>) None (Some [[[3, 4]]])
       = Inr (Some [[[3, 4]]])
   \<and> run_speaker example_ext (example_model\<lparr>self_speaker_dim := 0\<rparr>) example_inputs
       = Inr (None, None)"
  using fusion_cases [of ext example_model inp pa pc sa sc "[[[1, 2]]]" "[[[3, 4]]]"]
    fusion_cases [of ext "example_model\<lparr>self_combine := ''concat''\<rparr>" inp pa pc sa sc
      "[[[1, 2]]]" "[[[3, 4]]]"]
    fusion_cases [of example_ext "example_model\<lparr>self_speaker_dim := 0\<rparr>" example_inputs
      pa "Some [[[1, 2]]]" None None p s]
    fusion_cases [of ext "example_model\<lparr>self_phone_dim := 0\<rparr>" inp pa None sa
      "Some [[[3, 4]]]" p s]
  by (simp add: example_model_def run_speaker_def)

subsection \<open>Objective and pooling\<close>

lemma flat_length_sum: "length (concat (concat x)) = sum_list (concat (map (map length) x))"
  by (simp add: length_concat map_concat)

lemma flat_length:
  "map (map length) a = map (map length) b \<Longrightarrow> length (concat (concat a)) = length (concat (concat b))"
  by (simp add: flat_length_sum)

lemma selected_sum_aux:
  "length xs = length ys \<Longrightarrow> length ys = length ms \<Longrightarrow>
   sum_list (map2 f (map fst (filter snd (zip xs ms))) (map fst (filter snd (zip ys ms))))
     = (\<Sum>i<length ms. if ms ! i then f (xs ! i) (ys ! i) else (0::real))"
proof (induction xs ys ms rule: list_induct3)
  case Nil
  then show ?case by simp
next
  case (Cons x xs y ys m ms)
  then show ?case by (simp add: sum.lessThan_Suc_shift del: sum.lessThan_Suc cong: if_cong)
qed

lemma selected_sum:
  "length xs = length ms \<Longrightarrow> length ys = length ms \<Longrightarrow>
   sum_list (map2 f (map fst (filter snd (zip xs ms))) (map fst (filter snd (zip ys ms))))
     = (\<Sum>i<length ms. if ms ! i then f (xs ! i) (ys ! i) else (0::real))"
  by (rule selected_sum_aux) simp_all

lemma selected_length:
  "length xs = length ms \<Longrightarrow> length (map fst (filter snd (zip xs ms))) = length (filter id ms)"
proof (induction xs ms rule: list_induct2)
  case Nil
  then show ?case by simp
next
  case (Cons x xs m ms)
  then show ?case by simp
qed

lemma objective_value:
  assumes "0 < mask_sum ml"
    and "map (map length) pred = map (map length) ml"
    and "map (map length) lab = map (map length) ml"
  shows "compute_objective pred lab ml =
    Inr ((\<Sum>i<length (concat (concat ml)).
            if concat (concat ml) ! i
            then \<bar>concat (concat pred) ! i - concat (concat lab) ! i\<bar> else 0)
         / real (mask_sum ml))"
proof -
  have lp: "length (concat (concat pred)) = length (concat (concat ml))"
    using assms(2) by (rule flat_length)
  have ll: "length (concat (concat lab)) = length (concat (concat ml))"
    using assms(3) by (rule flat_length)
  show ?thesis
    using assms(1) selected_sum[OF lp ll, of "\<lambda>x y. \<bar>x - y\<bar>"] selected_length[OF lp]
    by (simp add: compute_objective_def L1Loss_def masked_select_def mask_sum_def)
qed

lemma mask_sum_card:
  "mask_sum ml = card {i. i < length (concat (concat ml)) \<and> concat (concat ml) ! i}"
  by (simp add: mask_sum_def length_filter_conv_card)

lemma objective_unmasked:
  assumes "0 < mask_sum ml"
    and "map (map length) pred = map (map length) ml"
    and "map (map length) lab = map (map length) ml"
    and "map (map length) pred' = map (map length) ml"
    and "map (map length) lab' = map (map length) ml"
    and "\<And>i. i < length (concat (concat ml)) \<Longrightarrow> concat (concat ml) ! i \<Longrightarrow>
          concat (concat pred') ! i = concat (concat pred) ! i \<and>
          concat (concat lab') ! i = concat (concat lab) ! i"
  shows "compute_objective pred' lab' ml = compute_objective pred lab ml"
proof -
  have "(\<Sum>i<length (concat (concat ml)).
            if concat (concat ml) ! i
            then \<bar>concat (concat pred') ! i - concat (concat lab') ! i\<bar> else 0)
      = (\<Sum>i<length (concat (concat ml)).
            if concat (concat ml) ! i
            then \<bar>concat (concat pred) ! i - concat (concat lab) ! i\<bar> else 0)"
    by (rule sum.cong) (auto simp add: assms(6))
  then show ?thesis
    by (simp add: objective_value[OF assms(1,2,3)] objective_value[OF assms(1,4,5)])
qed


text \<open>
  C5. With both labels given, the result of \<^verbatim>\<open>forward\<close> is the objective's. A mask that
  selects no position raises the assertion's error. A mask that selects \<open>k > 0\<close>
  positions (the number of true entries), on a prediction and a label of the mask's
  shape, gives the sum of the absolute differences at the selected positions divided
  by \<open>k\<close>; a prediction and a label that differ from these at unselected positions
  only give the same loss.
\<close>

theorem masked_l1_objective:
  "(mask_sum ml = 0 \<longrightarrow> compute_objective pred lab ml = Inl AssertionError)
   \<and> mask_sum ml = card {i. i < length (concat (concat ml)) \<and> concat (concat ml) ! i}
   \<and> (0 < mask_sum ml \<and> map (map length) pred = map (map length) ml
        \<and> map (map length) lab = map (map length) ml \<longrightarrow>
      compute_objective pred lab ml =
        Inr ((\<Sum>i<length (concat (concat ml)).
                if concat (concat ml) ! i
                then \<bar>concat (concat pred) ! i - concat (concat lab) ! i\<bar> else 0)
             / real (mask_sum ml)))
   \<and> (0 < mask_sum ml \<and> map (map length) pred = map (map length) ml
        \<and> map (map length) lab = map (map length) ml
        \<and> map (map length) pred' = map (map length) ml
        \<and> map (map length) lab' = map (map length) ml
        \<and> (\<forall>i < length (concat (concat ml)). concat (concat ml) ! i \<longrightarrow>
              concat (concat pred') ! i = concat (concat pred) ! i \<and>
              concat (concat lab') ! i = concat (concat lab) ! i) \<longrightarrow>
      compute_objective pred' lab' ml = compute_objective pred lab ml)
   \<and> (fused_code ext m inp = Inr (atts, Some code)
        \<and> decoder_forward ext m inp code = Inr (da, so)
        \<and> SpecHead_forward ext so = Inr (pred, st)
        \<and> spec_label inp = Some lab \<and> mask_label inp = Some ml \<longrightarrow>
      forward ext m inp =
        and_then (compute_objective pred lab ml) (\<lambda>loss. Inr (Loss_and_pred loss pred)))"
proof (intro conjI impI)
  show "compute_objective pred lab ml = Inl AssertionError" if "mask_sum ml = 0"
    using that by (simp add: compute_objective_def)
  show "mask_sum ml = card {i. i < length (concat (concat ml)) \<and> concat (concat ml) ! i}"
    by (rule mask_sum_card)
  show "compute_objective pred lab ml =
        Inr ((\<Sum>i<length (concat (concat ml)).
                if concat (concat ml) ! i
                then \<bar>concat (concat pred) ! i - concat (concat lab) ! i\<bar> else 0)
             / real (mask_sum ml))"
    if "0 < mask_sum ml \<and> map (map length) pred = map (map length) ml
        \<and> map (map length) lab = map (map length) ml"
    using that by (simp add: objective_value)
  show "compute_objective pred' lab' ml = compute_objective pred lab ml"
    if "0 < mask_sum ml \<and> map (map length) pred = map (map length) ml
        \<and> map (map length) lab = map (map length) ml
        \<and> map (map length) pred' = map (map length) ml
        \<and> map (map length) lab' = map (map length) ml
        \<and> (\<forall>i < length (concat (concat ml)). concat (concat ml) ! i \<longrightarrow>
              concat (concat pred') ! i = concat (concat pred) ! i \<and>
              concat (concat lab') ! i = concat (concat lab) ! i)"
    using that by (intro objective_unmasked) simp_all
  show "forward ext m inp =
        and_then (compute_objective pred lab ml) (\<lambda>loss. Inr (Loss_and_pred loss pred))"
    if "fused_code ext m inp = Inr (atts, Some code)
        \<and> decoder_forward ext m inp code = Inr (da, so)
        \<and> SpecHead_forward ext so = Inr (pred, st)
        \<and> spec_label inp = Some lab \<and> mask_label inp = Some ml"
    using that by (simp add: forward_def and_then_def)
qed

theorem masked_l1_objective_witness:
  "compute_objective [[[1, 5, 9]]] [[[1, 0, 9]]] [[[True, False, True]]] = Inr 0
   \<and> compute_objective [[[1, 5, 9]]] [[[2, 0, 7]]] [[[True, False, True]]] = Inr (3 / 2)
   \<and> compute_objective [[[1, 100, 9]]] [[[2, -4, 7]]] [[[True, False, True]]]
       = compute_objective [[[1, 5, 9]]] [[[2, 0, 7]]] [[[True, False, True]]]
   \<and> compute_objective [[[1, 5, 9]]] [[[2, 0, 7]]] [[[False, False, False]]] = Inl AssertionError
   \<and> mask_sum [[[True, False, True]]] = 2"
  using masked_l1_objective [of "[[[True, False, True]]]" "[[[1, 5, 9]]]" "[[[1, 0, 9]]]"
      "[[[1, 5, 9]]]" "[[[1, 0, 9]]]" ext m inp atts code da so st]
    masked_l1_objective [of "[[[True, False, True]]]" "[[[1, 5, 9]]]" "[[[2, 0, 7]]]"
      "[[[1, 100, 9]]]" "[[[2, -4, 7]]]" ext m inp atts code da so st]
    masked_l1_objective [of "[[[False, False, False]]]" "[[[1, 5, 9]]]" "[[[2, 0, 7]]]"
      "[[[1, 5, 9]]]" "[[[2, 0, 7]]]" ext m inp atts code da so st]
  by (simp add: mask_sum_def less_Suc_eq)

lemma concat_replicate_single: "concat (replicate n [v]) = replicate n v"
  by (induction n) simp_all

lemma singleton_hd: "length b = 1 \<Longrightarrow> b = [hd b]"
  by (cases b) simp_all

lemma repeat_singleton:
  assumes "\<forall>b \<in> set sc. length b = 1" "i < length sc"
  shows "repeat_time n sc ! i = replicate n (hd (sc ! i))"
proof -
  have "sc ! i = [hd (sc ! i)]" using assms by (intro singleton_hd) simp
  then have "concat (replicate n (sc ! i)) = replicate n (hd (sc ! i))"
    by (metis concat_replicate_single)
  then show ?thesis using assms(2) by (simp add: repeat_time_def)
qed

lemma mean_rows_value:
  "b \<noteq> [] \<Longrightarrow> length (mean_rows b) = length (hd b) \<and>
    (\<forall>h < length (hd b). mean_rows b ! h = sum_list (map (\<lambda>row. row ! h) b) / real (length b))"
  by (cases b) (simp_all add: mean_rows_def)

lemma load_encoder_keeps:
  "load_encoder (Some e) c = Inr r \<Longrightarrow> \<exists>t. r = Some (e\<lparr>Transformer := t\<rparr>)"
  by (auto simp add: load_encoder_def Let_def split: option.splits)

lemma normalize_keeps_speaker_dim: "speaker_dim (normalize_pre_train cfg) = speaker_dim cfg"
  by (simp add: normalize_pre_train_def)

lemma load_weights_keeps_speaker:
  assumes "load_weights fs cfg pe (Some s) = Inr (pe', se')"
  shows "\<exists>t. se' = Some (s\<lparr>Transformer := t\<rparr>)"
proof (cases "py_len (pre_train cfg) > 0")
  case False
  then have "se' = Some s" using assms by (simp add: load_weights_def)
  then have "se' = Some (s\<lparr>Transformer := Transformer s\<rparr>)" by simp
  then show ?thesis by blast
next
  case True
  then obtain c where "(if speaker_dim cfg \<noteq> 0 then load_encoder (Some s) c else Inr (Some s)) = Inr se'"
    using assms
    by (auto simp add: load_weights_def and_then_def Let_def normalize_keeps_speaker_dim
        split: sum.splits)
  then show ?thesis
  proof (cases "speaker_dim cfg \<noteq> 0")
    case True
    with \<open>(if speaker_dim cfg \<noteq> 0 then load_encoder (Some s) c else Inr (Some s)) = Inr se'\<close>
    show ?thesis using load_encoder_keeps by simp
  next
    case False
    with \<open>(if speaker_dim cfg \<noteq> 0 then load_encoder (Some s) c else Inr (Some s)) = Inr se'\<close>
    have "se' = Some (s\<lparr>Transformer := Transformer s\<rparr>)" by simp
    then show ?thesis by blast
  qed
qed

lemma init_speaker:
  assumes "DualTransformer_init ext fs cfg d od oa = Inr m" "speaker_dim cfg \<noteq> 0"
  shows "\<exists>s t. TransformerSpeakerEncoder_init ext cfg d True = Inr s
           \<and> SpeakerTransformer m = Some (s\<lparr>Transformer := t\<rparr>)"
proof -
  obtain s where s: "TransformerSpeakerEncoder_init ext cfg d True = Inr s"
    using assms by (auto simp add: DualTransformer_init_def and_then_def split: if_splits sum.splits)
  obtain pe pe' se' where l: "load_weights fs cfg pe (Some s) = Inr (pe', se')"
    and m: "SpeakerTransformer m
      = map_option (\<lambda>s. s\<lparr>Transformer := init_Transformer_weights ext (Transformer s)\<rparr>) se'"
    using assms s
    by (auto simp add: DualTransformer_init_def and_then_def split: if_splits sum.splits prod.splits)
  obtain t where "se' = Some (s\<lparr>Transformer := t\<rparr>)" using load_weights_keeps_speaker[OF l] by blast
  then have "SpeakerTransformer m = Some (s\<lparr>Transformer := init_Transformer_weights ext t\<rparr>)"
    using m by simp
  then show ?thesis using s by blast
qed

lemma speaker_init_fields:
  assumes "TransformerSpeakerEncoder_init ext cfg d True = Inr s"
  shows "enc_average_pooling s = average_pooling cfg"
    "with_recognizer s = (Recognizer s \<noteq> None)"
    "out_dim s = (case Recognizer s of None \<Rightarrow> hidden_size cfg | Some r \<Rightarrow> recognizer_out_dim r)"
    "out_dim s = (if speaker_type cfg = ''gst'' \<or> speaker_type cfg = ''linear''
                  then speaker_dim cfg else hidden_size cfg)"
  using assms
  by (auto simp add: TransformerSpeakerEncoder_init_def speaker_finish_def Let_def
      split: if_splits)

lemma mean_pool_shape:
  assumes "\<forall>b \<in> set so. b \<noteq> [] \<and> (\<forall>row \<in> set b. int (length row) = w)"
  shows "\<forall>b \<in> set (mean_pool so). length b = 1 \<and> (\<forall>row \<in> set b. int (length row) = w)"
proof
  fix b assume "b \<in> set (mean_pool so)"
  then obtain c where c: "c \<in> set so" "b = [mean_rows c]" by (auto simp add: mean_pool_def)
  then have "c \<noteq> []" "\<forall>row \<in> set c. int (length row) = w" using assms by auto
  then have "int (length (mean_rows c)) = w" by (cases c) (auto simp add: mean_rows_def)
  then show "length b = 1 \<and> (\<forall>row \<in> set b. int (length row) = w)" using c by simp
qed

lemma same_lengths_singletons:
  assumes "map length y = map length x" "\<forall>b \<in> set x. length b = 1"
  shows "\<forall>b \<in> set y. length b = 1"
proof -
  have "set (map length y) \<subseteq> {1}" using assms by auto
  then show ?thesis by auto
qed

text \<open>
  C4, as stated, fails on the width. A speaker encoder built for speaker type
  \<^verbatim>\<open>'none'\<close> (beside phonetic type \<^verbatim>\<open>'none'\<close>) has no recognizer, so with average pooling
  its code is the pooled sequence output itself, of width \<open>hidden_size\<close>: for
  \<open>hidden_size = 2\<close> and \<open>speaker_dim = 3\<close> the constructed model's speaker code is
  \<open>[[[2, 3]]]\<close>, of shape [1, 1, 2].
\<close>

theorem pooled_code_width_without_recognizer:
  "and_then (DualTransformer_init example_ext (\<lambda>p. None)
        (pooled_config\<lparr>phone_type := ''none'', speaker_type := ''none'', speaker_dim := 3\<rparr>)
        2 None False)
      (\<lambda>m. run_speaker example_ext m example_inputs) = Inr (Some [], Some [[[2, 3]]])
   \<and> average_pooling (pooled_config\<lparr>phone_type := ''none'', speaker_type := ''none'', speaker_dim := 3\<rparr>)
   \<and> speaker_dim (pooled_config\<lparr>phone_type := ''none'', speaker_type := ''none'', speaker_dim := 3\<rparr>) = 3
   \<and> hidden_size (pooled_config\<lparr>phone_type := ''none'', speaker_type := ''none'', speaker_dim := 3\<rparr>) = 2"
  by (simp add: DualTransformer_init_def and_then_def pooled_config_def
      TransformerPhoneticEncoder_init_def TransformerSpeakerEncoder_init_def code_dim_of_def
      load_weights_def phonetic_finish_def speaker_finish_def run_speaker_def
      TransformerSpeakerEncoder_forward_def example_ext_def example_inputs_def
      apply_recognizer_def mean_pool_def mean_rows_def)

text \<open>
  C4, amended. Take a constructed model with a speaker encoder and average pooling, a
  forward call in which the speaker encoder's \<^verbatim>\<open>TransformerModel\<close> returns a sequence
  output of nonempty batch items and width \<open>hidden_size\<close>, and a recognizer (if the
  encoder has one) that keeps the batch and time sizes of the pooled output and returns
  its own output width. Then the speaker code is the recognizer's result on the pooled
  sequence output (the pooled output itself without a recognizer), where pooling leaves
  per batch item the one timestep holding the mean over time of every feature; the
  speaker code has the batch size of the sequence output, one timestep per batch item
  and the width \<open>out_dim\<close> of the encoder, which is \<open>speaker_dim\<close> for the types
  \<^verbatim>\<open>'gst'\<close> and \<^verbatim>\<open>'linear'\<close> and \<open>hidden_size\<close> otherwise; and the model replaces it by
  its tiling along time: the same batch size, as many timesteps as the phonetic code
  has, each equal to the single timestep and of width \<open>out_dim\<close>.
\<close>

theorem pooled_speaker_code_is_tiled:
  assumes init: "DualTransformer_init ext fs cfg input_dim output_dim out_att = Inr m"
    and pool: "average_pooling cfg" and sp: "speaker_dim cfg \<noteq> 0"
    and enc: "SpeakerTransformer m = Some e"
    and tf: "TransformerModel_forward ext (Transformer e) (speaker_input inp) (Some (pos_enc inp))
               (attention_mask inp) (head_mask inp) = Inr (att, so)"
    and so: "\<forall>b \<in> set so. b \<noteq> [] \<and> (\<forall>row \<in> set b. int (length row) = hidden_size cfg)"
    and rc: "\<forall>r y. Recognizer e = Some r \<and> Recognizer_forward ext r (mean_pool so) = Inr y \<longrightarrow>
               map length y = map length (mean_pool so)
               \<and> (\<forall>b \<in> set y. \<forall>row \<in> set b. int (length row) = recognizer_out_dim r)"
    and rs: "run_speaker ext m inp = Inr (sa, scode)"
    and rp: "run_phonetic ext m inp = Inr (pa, Some p)"
  shows "\<exists>sc. scode = Some sc
      \<and> (case Recognizer e of None \<Rightarrow> sc = mean_pool so
          | Some r \<Rightarrow> Recognizer_forward ext r (mean_pool so) = Inr sc)
      \<and> (\<forall>i < length so. mean_pool so ! i = [mean_rows (so ! i)]
            \<and> (\<forall>h < length (hd (so ! i)). mean_rows (so ! i) ! h
                  = sum_list (map (\<lambda>row. row ! h) (so ! i)) / real (length (so ! i))))
      \<and> length sc = length so
      \<and> (\<forall>b \<in> set sc. length b = 1 \<and> (\<forall>row \<in> set b. int (length row) = out_dim e))
      \<and> out_dim e = (if speaker_type cfg = ''gst'' \<or> speaker_type cfg = ''linear''
                      then speaker_dim cfg else hidden_size cfg)
      \<and> replicate_code m (Some p) scode = Inr (Some (repeat_time (size1 p) sc))
      \<and> length (repeat_time (size1 p) sc) = length sc
      \<and> (\<forall>i < length sc. length (repeat_time (size1 p) sc ! i) = size1 p
            \<and> (\<forall>t < size1 p. repeat_time (size1 p) sc ! i ! t = hd (sc ! i)
                  \<and> int (length (repeat_time (size1 p) sc ! i ! t)) = out_dim e))"
proof -
  have f: "self_speaker_dim m = speaker_dim cfg" "self_average_pooling m = average_pooling cfg"
    using init_fields[OF init] by simp_all
  have sd: "self_speaker_dim m \<noteq> 0" using f sp by simp
  obtain s t where s: "TransformerSpeakerEncoder_init ext cfg input_dim True = Inr s"
    and e: "SpeakerTransformer m = Some (s\<lparr>Transformer := t\<rparr>)"
    using init_speaker[OF init] sd f by auto
  have e': "e = s\<lparr>Transformer := t\<rparr>" using e enc by simp
  have ef: "enc_average_pooling e" "with_recognizer e = (Recognizer e \<noteq> None)"
    "out_dim e = (case Recognizer e of None \<Rightarrow> hidden_size cfg | Some r \<Rightarrow> recognizer_out_dim r)"
    "out_dim e = (if speaker_type cfg = ''gst'' \<or> speaker_type cfg = ''linear''
                  then speaker_dim cfg else hidden_size cfg)"
    using speaker_init_fields[OF s] pool by (simp_all add: e')
  obtain sc where sc: "scode = Some sc" "apply_recognizer ext e (mean_pool so) = Inr sc"
    using rs sd enc tf ef(1)
    by (auto simp add: run_speaker_def TransformerSpeakerEncoder_forward_def and_then_def
        split: sum.splits)
  have mp: "\<forall>b \<in> set (mean_pool so). length b = 1 \<and> (\<forall>row \<in> set b. int (length row) = hidden_size cfg)"
    using mean_pool_shape[OF so] .
  have rel: "case Recognizer e of None \<Rightarrow> sc = mean_pool so
          | Some r \<Rightarrow> Recognizer_forward ext r (mean_pool so) = Inr sc"
    using sc(2) ef(2) by (auto simp add: apply_recognizer_def split: option.splits)
  have shape: "map length sc = map length (mean_pool so)
      \<and> (\<forall>b \<in> set sc. \<forall>row \<in> set b. int (length row) = out_dim e)"
  proof (cases "Recognizer e")
    case None
    then show ?thesis using rel mp ef(3) by simp
  next
    case (Some r)
    then show ?thesis using rel rc ef(3) by simp
  qed
  then have len: "length sc = length so"
    by (metis length_map mean_pool_def)
  have single: "\<forall>b \<in> set sc. length b = 1"
    using same_lengths_singletons[of sc "mean_pool so"] shape mp by blast
  have means: "\<forall>i < length so. mean_pool so ! i = [mean_rows (so ! i)]
            \<and> (\<forall>h < length (hd (so ! i)). mean_rows (so ! i) ! h
                  = sum_list (map (\<lambda>row. row ! h) (so ! i)) / real (length (so ! i)))"
  proof (intro allI impI conjI)
    fix i assume i: "i < length so"
    then show "mean_pool so ! i = [mean_rows (so ! i)]" by (simp add: mean_pool_def)
    have "so ! i \<noteq> []" using so i by (metis nth_mem)
    then show "mean_rows (so ! i) ! h
        = sum_list (map (\<lambda>row. row ! h) (so ! i)) / real (length (so ! i))"
      if "h < length (hd (so ! i))" for h
      using that mean_rows_value by blast
  qed
  have rep: "replicate_code m (Some p) scode = Inr (Some (repeat_time (size1 p) sc))"
    using sd f pool sc(1) by (simp add: replicate_code_def)
  have tiles: "\<forall>i < length sc. length (repeat_time (size1 p) sc ! i) = size1 p
            \<and> (\<forall>t < size1 p. repeat_time (size1 p) sc ! i ! t = hd (sc ! i)
                  \<and> int (length (repeat_time (size1 p) sc ! i ! t)) = out_dim e)"
  proof (intro allI impI conjI)
    fix i assume i: "i < length sc"
    have r: "repeat_time (size1 p) sc ! i = replicate (size1 p) (hd (sc ! i))"
      using repeat_singleton[OF single i] .
    show "length (repeat_time (size1 p) sc ! i) = size1 p" using r by simp
    have b: "sc ! i \<in> set sc" using i by simp
    then have "sc ! i = [hd (sc ! i)]" using single singleton_hd by blast
    then have "hd (sc ! i) \<in> set (sc ! i)" by (metis list.set_intros(1))
    then have w: "int (length (hd (sc ! i))) = out_dim e" using shape b by blast
    fix t assume t: "t < size1 p"
    show "repeat_time (size1 p) sc ! i ! t = hd (sc ! i)" using r t by simp
    then show "int (length (repeat_time (size1 p) sc ! i ! t)) = out_dim e" using w by simp
  qed
  have l2: "length (repeat_time (size1 p) sc) = length sc" by (simp add: repeat_time_def)
  show ?thesis
    using sc(1) rel means len single shape ef(4) rep l2 tiles by blast
qed

theorem pooled_speaker_code_is_tiled_witness:
  "\<exists>m. DualTransformer_init example_ext (\<lambda>p. None) pooled_config 2 None False = Inr m
     \<and> run_phonetic example_ext m example_inputs = Inr (Some [], Some [[[1], [3]]])
     \<and> run_speaker example_ext m example_inputs = Inr (Some [], Some [[[2]]])
     \<and> replicate_code m (Some [[[1], [3]]]) (Some [[[2]]]) = Inr (Some [[[2], [2]]])"
proof -
  define e where "e = speaker_finish example_ext pooled_config
      (TransformerModel_new example_ext pooled_config 2 None) (Some (LinearLayer 2 1))"
  have "\<exists>m. DualTransformer_init example_ext (\<lambda>p. None) pooled_config 2 None False = Inr m"
    by (simp add: DualTransformer_init_def and_then_def pooled_config_def
        TransformerPhoneticEncoder_init_def TransformerSpeakerEncoder_init_def code_dim_of_def
        load_weights_def)
  then obtain m where m: "DualTransformer_init example_ext (\<lambda>p. None) pooled_config 2 None False = Inr m" ..
  have enc: "SpeakerTransformer m = Some e"
    using m
    by (auto simp add: DualTransformer_init_def and_then_def pooled_config_def e_def
        TransformerPhoneticEncoder_init_def TransformerSpeakerEncoder_init_def code_dim_of_def
        load_weights_def speaker_finish_def example_ext_def)
  have rp: "run_phonetic example_ext m example_inputs = Inr (Some [], Some [[[1], [3]]])"
    using m
    by (auto simp add: DualTransformer_init_def and_then_def pooled_config_def
        TransformerPhoneticEncoder_init_def TransformerSpeakerEncoder_init_def code_dim_of_def
        load_weights_def phonetic_finish_def run_phonetic_def
        TransformerPhoneticEncoder_forward_def example_ext_def example_inputs_def
        apply_recognizer_def)
  have rs: "run_speaker example_ext m example_inputs = Inr (Some [], Some [[[2]]])"
    using m
    by (auto simp add: DualTransformer_init_def and_then_def pooled_config_def
        TransformerPhoneticEncoder_init_def TransformerSpeakerEncoder_init_def code_dim_of_def
        load_weights_def speaker_finish_def run_speaker_def
        TransformerSpeakerEncoder_forward_def example_ext_def example_inputs_def
        apply_recognizer_def mean_pool_def mean_rows_def)
  have tf: "TransformerModel_forward example_ext (Transformer e) (speaker_input example_inputs)
        (Some (pos_enc example_inputs)) (attention_mask example_inputs) (head_mask example_inputs)
      = Inr ([], [[[1, 2], [3, 4]]])"
    by (simp add: example_ext_def example_inputs_def)
  have so: "\<forall>b \<in> set [[[1, 2], [3, 4 :: real]]].
      b \<noteq> [] \<and> (\<forall>row \<in> set b. int (length row) = hidden_size pooled_config)"
    by (simp add: pooled_config_def)
  have rc: "\<forall>r y. Recognizer e = Some r
        \<and> Recognizer_forward example_ext r (mean_pool [[[1, 2], [3, 4]]]) = Inr y \<longrightarrow>
      map length y = map length (mean_pool [[[1, 2], [3, 4]]])
      \<and> (\<forall>b \<in> set y. \<forall>row \<in> set b. int (length row) = recognizer_out_dim r)"
    by (auto simp add: e_def speaker_finish_def example_ext_def mean_pool_def mean_rows_def)
  have "replicate_code m (Some [[[1], [3]]]) (Some [[[2]]]) = Inr (Some [[[2], [2]]])"
    using pooled_speaker_code_is_tiled[OF m _ _ enc tf so rc rs rp]
    by (auto simp add: pooled_config_def repeat_time_def size1_def)
  with m rp rs show ?thesis by blast
qed

end
